theory Spec2Isabelle
  imports Complex_Main "HOL-Library.Sublist" "HOL-Library.Multiset"
begin

section \<open>Mythmaker: the orchestration pipeline of app.py\<close>

text \<open>
  The development embeds \<^verbatim>\<open>run_pipeline\<close> of \<^verbatim>\<open>src/app.py\<close> (lines 72 to 189) and its
  nested gateway function \<^verbatim>\<open>execute_agent\<close>. Python strings are byte lists holding the
  UTF-8 encoding of the text. What the program does not implement itself is a parameter
  of the model, collected in the record \<open>env\<close>: the completion service behind
  \<^verbatim>\<open>client.models.generate_content\<close>, the library parser \<^verbatim>\<open>json.loads\<close>, and Python's
  \<^verbatim>\<open>str()\<close> of a value that is not a string.
\<close>

subsection \<open>Python string methods used by the pipeline\<close>

type_synonym bytes = "char list"

text \<open>
  \<^verbatim>\<open>s.replace(old, new)\<close>: every non-overlapping occurrence of \<open>old\<close>, scanned from the
  left, is replaced. With an empty \<open>old\<close> Python inserts \<open>new\<close> before every character and
  at the end.
\<close>

function str_replace :: "string \<Rightarrow> string \<Rightarrow> string \<Rightarrow> string" where
  "str_replace old new s =
     (if old = [] then concat (map (\<lambda>c. new @ [c]) s) @ new
      else if s = [] then []
      else if prefix old s then new @ str_replace old new (drop (length old) s)
      else hd s # str_replace old new (tl s))"
  by pat_completeness auto
termination
  by (relation "measure (\<lambda>(old, new, s). length s)") auto

text \<open>
  \<^verbatim>\<open>s.strip()\<close> removes leading and trailing whitespace, where whitespace is every code
  point for which \<^verbatim>\<open>str.isspace\<close> holds. \<open>whitespace\<close> lists their UTF-8 encodings:
  U+0009..U+000D, U+001C..U+0020, U+0085, U+00A0, U+1680, U+2000..U+200A, U+2028, U+2029,
  U+202F, U+205F and U+3000.
\<close>

definition whitespace :: "string list" where
  "whitespace =
     map (\<lambda>c. [c])
       [CHR 0x09, CHR 0x0A, CHR 0x0B, CHR 0x0C, CHR 0x0D,
        CHR 0x1C, CHR 0x1D, CHR 0x1E, CHR 0x1F, CHR 0x20] @
     [[CHR 0xC2, CHR 0x85], [CHR 0xC2, CHR 0xA0], [CHR 0xE1, CHR 0x9A, CHR 0x80]] @
     map (\<lambda>c. [CHR 0xE2, CHR 0x80, c])
       [CHR 0x80, CHR 0x81, CHR 0x82, CHR 0x83, CHR 0x84, CHR 0x85, CHR 0x86, CHR 0x87,
        CHR 0x88, CHR 0x89, CHR 0x8A, CHR 0xA8, CHR 0xA9, CHR 0xAF] @
     [[CHR 0xE2, CHR 0x81, CHR 0x9F], [CHR 0xE3, CHR 0x80, CHR 0x80]]"

text \<open>\<open>drop_leading ws s\<close> removes from the front of \<open>s\<close> every leading member of \<open>ws\<close>.\<close>

function drop_leading :: "string list \<Rightarrow> string \<Rightarrow> string" where
  "drop_leading ws s =
     (case find (\<lambda>w. w \<noteq> [] \<and> prefix w s) ws of
        None \<Rightarrow> s
      | Some w \<Rightarrow> drop_leading ws (drop (length w) s))"
  by pat_completeness auto
termination
proof (relation "measure (\<lambda>(ws, s). length s)")
  show "wf (measure (\<lambda>(ws, s). length s))" by simp
next
  fix ws :: "string list" and s w :: string
  assume "find (\<lambda>w. w \<noteq> [] \<and> prefix w s) ws = Some w"
  then have "w \<noteq> []" and "prefix w s"
    by (auto simp: find_Some_iff)
  then have "s \<noteq> []" by auto
  with \<open>w \<noteq> []\<close> show "((ws, drop (length w) s), (ws, s)) \<in> measure (\<lambda>(ws, s). length s)"
    by simp
qed

definition str_strip :: "string \<Rightarrow> string" where
  "str_strip s = rev (drop_leading (map rev whitespace) (rev (drop_leading whitespace s)))"

subsection \<open>Phase 2: context compaction (lines 147 to 151)\<close>

definition context_package :: "string \<Rightarrow> string \<Rightarrow> string \<Rightarrow> string" where
  "context_package location visuals lore =
     ''LOCATION: '' @ location @ ''\<newline>'' @
     ''VISUALS: '' @ visuals @ ''\<newline>'' @
     ''VERIFIED LORE: '' @ lore @ ''\<newline>''"

subsection \<open>Values returned by the JSON parser\<close>

text \<open>
  What \<^verbatim>\<open>json.loads\<close> can return: \<^verbatim>\<open>None\<close>, a bool, an int, a float, a str, a list or a
  dict with string keys. A float is kept by its exact value; \<^verbatim>\<open>json.loads\<close> also accepts
  the literals \<^verbatim>\<open>NaN\<close>, \<^verbatim>\<open>Infinity\<close> and \<^verbatim>\<open>-Infinity\<close>. A dict is the list of its items in
  insertion order.
\<close>

datatype pyfloat = Finite rat | PosInf | NegInf | NaN

datatype json =
    JNull
  | JBool bool
  | JInt int
  | JFloat pyfloat
  | JString string
  | JArray "json list"
  | JObject "(string \<times> json) list"

datatype py_exception = ParseError | AttributeError | TypeError

text \<open>\<^verbatim>\<open>data.get(key, default)\<close>; only a dict has the method.\<close>

definition dict_get :: "json \<Rightarrow> string \<Rightarrow> json \<Rightarrow> py_exception + json" where
  "dict_get data key dflt =
     (case data of
        JObject items \<Rightarrow> (case map_of items key of None \<Rightarrow> Inr dflt | Some v \<Rightarrow> Inr v)
      | _ \<Rightarrow> Inl AttributeError)"

text \<open>
  \<^verbatim>\<open>value >= n\<close> for an int \<open>n\<close>: defined on numbers (a bool counts as 0 or 1, a NaN
  compares false), a \<^verbatim>\<open>TypeError\<close> on everything else.
\<close>

definition py_ge :: "json \<Rightarrow> int \<Rightarrow> py_exception + bool" where
  "py_ge v n =
     (case v of
        JInt k \<Rightarrow> Inr (n \<le> k)
      | JBool b \<Rightarrow> Inr (n \<le> (if b then 1 else 0))
      | JFloat f \<Rightarrow>
          Inr (case f of Finite q \<Rightarrow> of_int n \<le> q | PosInf \<Rightarrow> True | NegInf \<Rightarrow> False
               | NaN \<Rightarrow> False)
      | _ \<Rightarrow> Inl TypeError)"

text \<open>Truth value of a Python object, as \<^verbatim>\<open>if feedback:\<close> tests it.\<close>

definition truthy :: "json \<Rightarrow> bool" where
  "truthy v =
     (case v of
        JNull \<Rightarrow> False
      | JBool b \<Rightarrow> b
      | JInt k \<Rightarrow> k \<noteq> 0
      | JFloat f \<Rightarrow> f \<noteq> Finite 0
      | JString s \<Rightarrow> s \<noteq> []
      | JArray xs \<Rightarrow> xs \<noteq> []
      | JObject items \<Rightarrow> items \<noteq> [])"

subsection \<open>Agents, requests and responses\<close>

record agent =
  name :: string
  instruction :: string

definition visionary_agent :: agent where
  "visionary_agent =
     \<lparr>name = ''Visionary'',
      instruction = ''You are The Visionary. Analyze images and list 3 specific, vivid visual details that look spooky or mysterious.''\<rparr>"

definition investigator_agent :: agent where
  "investigator_agent =
     \<lparr>name = ''Investigator'',
      instruction =
        ''You are The Investigator. You MUST use Google Search to find verified historical facts. '' @
        ''Focus on: dark history, crimes, local legends, and specific dates. '' @
        ''Do NOT make up facts. If you can't find info, state that.''\<rparr>"

definition mythmaker_agent :: agent where
  "mythmaker_agent =
     \<lparr>name = ''Bard'',
      instruction = ''You are The Local Mythmaker. Write a short 'Micro-Myth' (max 120 words) weaving verified history into a spooky narrative and first person to the user.''\<rparr>"

definition critic_agent :: agent where
  "critic_agent =
     \<lparr>name = ''Critic'',
      instruction =
        ''You are the Editor. Evaluate the myth for spookiness and historical accuracy integration. '' @
        ''Return ONLY a JSON object: {'score': int (1-10), 'feedback': 'string'}. '' @
        ''Do not output markdown.''\<rparr>"

text \<open>
  The request that \<^verbatim>\<open>execute_agent\<close> hands to \<^verbatim>\<open>generate_content\<close>: the model name, the
  content list and the configuration (system instruction, temperature, tools, automatic
  function calling).
\<close>

datatype content_item = ImagePart bytes string | Prompt string

datatype tool = GoogleSearch

record request =
  model :: string
  contents :: "content_item list"
  system_instruction :: string
  temperature :: rat
  tools :: "tool list"
  automatic_function_calling_disable :: "bool option"

text \<open>
  Modelled from the spec: the response types of the client library, which are not part of
  the repository. A response holds a candidate list, a candidate a content with a
  sequence of parts, and a part may bear text. Each of these attributes is optional in the
  library: the list of candidates, the content of a candidate, the list of parts and the
  text may each be \<^verbatim>\<open>None\<close>.
\<close>

datatype part = Part (part_text: "string option")

datatype content = Content (parts: "part list option")

datatype candidate = Candidate (content: "content option")

datatype response = Response (candidates: "candidate list option")

text \<open>
  One call of the completion service either raises an \<^verbatim>\<open>Exception\<close> \<open>e\<close>, of which the
  program only reads \<^verbatim>\<open>str(e)\<close>, or returns a response.
\<close>

datatype outcome = Raises string | Returns response

text \<open>
  The environment of a run. \<open>generate_content k r\<close> is the outcome of the call that is
  issued after \<open>k\<close> earlier calls with request \<open>r\<close>; \<open>json_loads s\<close> is \<open>None\<close> when
  \<^verbatim>\<open>json.loads(s)\<close> raises; \<open>py_str v\<close> is \<^verbatim>\<open>str(v)\<close> for a value that is not a string.
\<close>

record env =
  generate_content :: "nat \<Rightarrow> request \<Rightarrow> outcome"
  json_loads :: "string \<Rightarrow> json option"
  py_str :: "json \<Rightarrow> string"

text \<open>The effects of a run: the requests sent to the service and the logger's lines.\<close>

datatype level = INFO | ERROR

record world =
  sent :: "request list"
  log :: "(level \<times> string) list"

definition logger :: "level \<Rightarrow> string \<Rightarrow> world \<Rightarrow> world" where
  "logger lvl msg w = w\<lparr>log := log w @ [(lvl, msg)]\<rparr>"

subsection \<open>The gateway: execute_agent (lines 81 to 120)\<close>

definition build_request :: "string \<Rightarrow> agent \<Rightarrow> string \<Rightarrow> bytes option \<Rightarrow> bool \<Rightarrow> request" where
  "build_request mime_type ag prompt image_input use_google_search =
     \<lparr>model = ''gemini-2.5-pro'',
      contents =
        (case image_input of
           None \<Rightarrow> []
         | Some data \<Rightarrow> if data \<noteq> [] then [ImagePart data mime_type] else []) @ [Prompt prompt],
      system_instruction = instruction ag,
      temperature = 7 / 10,
      tools = (if use_google_search then [GoogleSearch] else []),
      automatic_function_calling_disable = (if use_google_search then Some False else None)\<rparr>"

text \<open>
  Lines 111 to 116, the rest of the \<^verbatim>\<open>try\<close> body once the call has returned: the text of
  the first candidate's parts, or the fallback. Line 112 tests the candidates and the
  parts, and reads \<^verbatim>\<open>.content.parts\<close> in between: on a first candidate whose content is
  \<^verbatim>\<open>None\<close> this raises an \<^verbatim>\<open>AttributeError\<close>. The result is \<open>Inl\<close> of the exception's
  \<^verbatim>\<open>str\<close>, or \<open>Inr\<close> of the text returned on line 116.
\<close>

definition no_parts_attribute :: string where
  "no_parts_attribute =
     [CHR 0x27] @ ''NoneType'' @ [CHR 0x27] @ '' object has no attribute '' @
     [CHR 0x27] @ ''parts'' @ [CHR 0x27]"

definition add_part :: "string \<Rightarrow> part \<Rightarrow> string" where
  "add_part full_text p =
     (case part_text p of
        None \<Rightarrow> full_text
      | Some t \<Rightarrow> if t \<noteq> [] then full_text @ t else full_text)"

definition fallback :: "string \<Rightarrow> string" where
  "fallback full_text = (if full_text \<noteq> [] then full_text else ''No response generated.'')"

definition extract_text :: "response \<Rightarrow> string + string" where
  "extract_text r =
     (case candidates r of
        None \<Rightarrow> Inr (fallback [])
      | Some [] \<Rightarrow> Inr (fallback [])
      | Some (c # cs) \<Rightarrow>
          (case content c of
             None \<Rightarrow> Inl no_parts_attribute
           | Some ct \<Rightarrow>
               (case parts ct of
                  None \<Rightarrow> Inr (fallback [])
                | Some ps \<Rightarrow> Inr (fallback (foldl add_part [] ps)))))"

text \<open>
  The handler of lines 118 to 120 covers the whole \<^verbatim>\<open>try\<close> body: the call and the
  extraction.
\<close>

definition handler :: "agent \<Rightarrow> string \<Rightarrow> world \<Rightarrow> string \<times> world" where
  "handler ag e w = (''Error: '' @ e, logger ERROR (''Agent '' @ name ag @ '' failed: '' @ e) w)"

definition execute_agent ::
  "env \<Rightarrow> string \<Rightarrow> agent \<Rightarrow> string \<Rightarrow> bytes option \<Rightarrow> bool \<Rightarrow> world \<Rightarrow> string \<times> world" where
  "execute_agent E mime_type ag prompt image_input use_google_search w =
     (let w1 = logger INFO ([CHR 0xE2, CHR 0x9A, CHR 0xA1] @ '' Executing '' @ name ag @ ''...'') w;
          req = build_request mime_type ag prompt image_input use_google_search;
          w2 = w1\<lparr>sent := sent w1 @ [req]\<rparr>
      in case generate_content E (length (sent w1)) req of
           Returns r \<Rightarrow>
             (case extract_text r of
                Inr full_text \<Rightarrow> (full_text, w2)
              | Inl e \<Rightarrow> handler ag e w2)
         | Raises e \<Rightarrow> handler ag e w2)"

subsection \<open>Phase 3: the refine loop (lines 156 to 186)\<close>

record session_memory =
  visuals :: string
  lore :: string
  drafts :: "string list"
  final_myth :: string

text \<open>
  The variables of the loop. \<open>iterations\<close> is a ghost counter of the passes through the
  loop body; the program has no such variable.
\<close>

record loop_vars =
  memory :: session_memory
  current_draft :: string
  feedback :: json
  iterations :: nat

datatype flow = Break | Next

text \<open>\<^verbatim>\<open>f"{feedback}"\<close>: a string is inserted as it is, any other value through \<^verbatim>\<open>str\<close>.\<close>

definition format_value :: "env \<Rightarrow> json \<Rightarrow> string" where
  "format_value E v = (case v of JString s \<Rightarrow> s | _ \<Rightarrow> py_str E v)"

definition clean_json :: "string \<Rightarrow> string" where
  "clean_json eval_result =
     str_strip (str_replace ''```'' [] (str_replace ''```json'' [] eval_result))"

text \<open>
  The body of the \<^verbatim>\<open>try\<close> statement (lines 178 to 184), before the handler: the
  exception it raises or how the loop goes on, and the value of \<open>feedback\<close> afterwards
  (assigned on line 181, before the comparison of line 183 can raise).
\<close>

definition try_block :: "env \<Rightarrow> string \<Rightarrow> json \<Rightarrow> (py_exception + flow) \<times> json" where
  "try_block E eval_result fb =
     (case json_loads E (clean_json eval_result) of
        None \<Rightarrow> (Inl ParseError, fb)
      | Some data \<Rightarrow>
          (case dict_get data ''score'' (JInt 0) of
             Inl e \<Rightarrow> (Inl e, fb)
           | Inr score \<Rightarrow>
               (case dict_get data ''feedback'' (JString ''Good.'') of
                  Inl e \<Rightarrow> (Inl e, fb)
                | Inr fb' \<Rightarrow>
                    (case py_ge score 8 of
                       Inl e \<Rightarrow> (Inl e, fb')
                     | Inr b \<Rightarrow> (Inr (if b then Break else Next), fb')))))"

text \<open>Lines 177 to 186: the bare \<^verbatim>\<open>except\<close> turns every exception into a \<^verbatim>\<open>break\<close>.\<close>

definition evaluate :: "env \<Rightarrow> string \<Rightarrow> json \<Rightarrow> flow \<times> json" where
  "evaluate E eval_result fb =
     (case try_block E eval_result fb of
        (Inl e, fb') \<Rightarrow> (Break, fb')
      | (Inr f, fb') \<Rightarrow> (f, fb'))"

definition prompt_text :: "env \<Rightarrow> json \<Rightarrow> string" where
  "prompt_text E fb =
     (if truthy fb then ''Refine this myth based on feedback: '' @ format_value E fb
      else ''Write the myth.'')"

definition full_prompt :: "env \<Rightarrow> json \<Rightarrow> string \<Rightarrow> string" where
  "full_prompt E fb ctx = prompt_text E fb @ ''\<newline>\<newline>CONTEXT:\<newline>'' @ ctx"

definition loop_body ::
  "env \<Rightarrow> string \<Rightarrow> string \<Rightarrow> loop_vars \<Rightarrow> world \<Rightarrow> flow \<times> loop_vars \<times> world" where
  "loop_body E mime_type ctx v w =
     (let (draft, w1) =
            execute_agent E mime_type mythmaker_agent (full_prompt E (feedback v) ctx) None False w;
          m1 = (memory v)\<lparr>drafts := drafts (memory v) @ [draft]\<rparr>;
          (eval_result, w2) =
            execute_agent E mime_type critic_agent (''Evaluate:\<newline>'' @ draft) None False w1;
          (f, fb) = evaluate E eval_result (feedback v)
      in (f, \<lparr>memory = m1, current_draft = draft, feedback = fb,
               iterations = Suc (iterations v)\<rparr>, w2))"

text \<open>\<^verbatim>\<open>for i in range(2)\<close>, the body not reading \<open>i\<close>.\<close>

fun for_loop ::
  "env \<Rightarrow> string \<Rightarrow> string \<Rightarrow> nat list \<Rightarrow> loop_vars \<Rightarrow> world \<Rightarrow> loop_vars \<times> world" where
  "for_loop E mime_type ctx [] v w = (v, w)"
| "for_loop E mime_type ctx (i # rest) v w =
     (case loop_body E mime_type ctx v w of
        (Break, v', w') \<Rightarrow> (v', w')
      | (Next, v', w') \<Rightarrow> for_loop E mime_type ctx rest v' w')"

subsection \<open>The driver: run_pipeline (lines 72 to 189)\<close>

text \<open>
  Phase 1 issues its two calls on worker threads and awaits both; the model issues the
  Visionary's call first. The effects of a run start from the empty trace.
\<close>

definition gather :: "env \<Rightarrow> bytes \<Rightarrow> string \<Rightarrow> string \<Rightarrow> (string \<times> string) \<times> world" where
  "gather E image_bytes mime_type location =
     (let w0 = logger INFO ''--- Phase 1: Parallel ---'' \<lparr>sent = [], log = []\<rparr>;
          (vis, w1) =
            execute_agent E mime_type visionary_agent ''Describe the atmosphere.''
              (Some image_bytes) False w0;
          (lor, w2) =
            execute_agent E mime_type investigator_agent
              (''Find specific dark history and ghost stories for: '' @ location) None True w1
      in ((vis, lor), w2))"

text \<open>The state in which the loop is left, before line 188.\<close>

definition loop_exit :: "env \<Rightarrow> bytes \<Rightarrow> string \<Rightarrow> string \<Rightarrow> loop_vars \<times> world" where
  "loop_exit E image_bytes mime_type location =
     (let ((vis, lor), w2) = gather E image_bytes mime_type location;
          m = \<lparr>visuals = vis, lore = lor, drafts = [], final_myth = []\<rparr>;
          ctx = context_package location vis lor;
          w3 = logger INFO ''--- Phase 3: Loop ---'' w2
      in for_loop E mime_type ctx [0..<2]
           \<lparr>memory = m, current_draft = [], feedback = JString [], iterations = 0\<rparr> w3)"

definition run_pipeline :: "env \<Rightarrow> bytes \<Rightarrow> string \<Rightarrow> string \<Rightarrow> session_memory \<times> world" where
  "run_pipeline E image_bytes mime_type location =
     (let (v, w) = loop_exit E image_bytes mime_type location
      in ((memory v)\<lparr>final_myth := current_draft v\<rparr>, w))"

subsection \<open>Notions used to state the properties\<close>

text \<open>
  The text a gateway invocation returns when it is issued after \<open>k\<close> earlier calls with
  request \<open>req\<close> (lemma \<open>execute_agent_text\<close> below relates it to \<open>execute_agent\<close>).
\<close>

definition call_text :: "env \<Rightarrow> nat \<Rightarrow> request \<Rightarrow> string" where
  "call_text E k req =
     (case generate_content E k req of
        Returns r \<Rightarrow> (case extract_text r of Inr full_text \<Rightarrow> full_text | Inl e \<Rightarrow> ''Error: '' @ e)
      | Raises e \<Rightarrow> ''Error: '' @ e)"

text \<open>The requests of the (up to) six invocations of a run and the texts they return.\<close>

definition vision_request :: "bytes \<Rightarrow> string \<Rightarrow> request" where
  "vision_request image_bytes mime_type =
     build_request mime_type visionary_agent ''Describe the atmosphere.'' (Some image_bytes) False"

definition investigation_request :: "string \<Rightarrow> string \<Rightarrow> request" where
  "investigation_request mime_type location =
     build_request mime_type investigator_agent
       (''Find specific dark history and ghost stories for: '' @ location) None True"

definition generate_request :: "env \<Rightarrow> string \<Rightarrow> json \<Rightarrow> string \<Rightarrow> request" where
  "generate_request E mime_type fb ctx =
     build_request mime_type mythmaker_agent (full_prompt E fb ctx) None False"

definition evaluate_request :: "string \<Rightarrow> string \<Rightarrow> request" where
  "evaluate_request mime_type draft =
     build_request mime_type critic_agent (''Evaluate:\<newline>'' @ draft) None False"

definition visuals1 :: "env \<Rightarrow> bytes \<Rightarrow> string \<Rightarrow> string" where
  "visuals1 E image_bytes mime_type = call_text E 0 (vision_request image_bytes mime_type)"

definition lore1 :: "env \<Rightarrow> string \<Rightarrow> string \<Rightarrow> string" where
  "lore1 E mime_type location = call_text E 1 (investigation_request mime_type location)"

definition context1 :: "env \<Rightarrow> bytes \<Rightarrow> string \<Rightarrow> string \<Rightarrow> string" where
  "context1 E image_bytes mime_type location =
     context_package location (visuals1 E image_bytes mime_type) (lore1 E mime_type location)"

definition draft1 :: "env \<Rightarrow> bytes \<Rightarrow> string \<Rightarrow> string \<Rightarrow> string" where
  "draft1 E image_bytes mime_type location =
     call_text E 2
       (generate_request E mime_type (JString []) (context1 E image_bytes mime_type location))"

definition eval_result1 :: "env \<Rightarrow> bytes \<Rightarrow> string \<Rightarrow> string \<Rightarrow> string" where
  "eval_result1 E image_bytes mime_type location =
     call_text E 3 (evaluate_request mime_type (draft1 E image_bytes mime_type location))"

definition feedback1 :: "env \<Rightarrow> bytes \<Rightarrow> string \<Rightarrow> string \<Rightarrow> json" where
  "feedback1 E image_bytes mime_type location =
     snd (evaluate E (eval_result1 E image_bytes mime_type location) (JString []))"

definition draft2 :: "env \<Rightarrow> bytes \<Rightarrow> string \<Rightarrow> string \<Rightarrow> string" where
  "draft2 E image_bytes mime_type location =
     call_text E 4
       (generate_request E mime_type (feedback1 E image_bytes mime_type location)
          (context1 E image_bytes mime_type location))"

text \<open>Whether the first pass ends the loop.\<close>

definition stops_after1 :: "env \<Rightarrow> bytes \<Rightarrow> string \<Rightarrow> string \<Rightarrow> bool" where
  "stops_after1 E image_bytes mime_type location =
     (fst (evaluate E (eval_result1 E image_bytes mime_type location) (JString [])) = Break)"

text \<open>
  The text-bearing parts of the first candidate, in order: the texts that line 114 finds
  present and not empty. A candidate without content has none.
\<close>

definition text_parts :: "response \<Rightarrow> string list" where
  "text_parts r =
     (case candidates r of
        None \<Rightarrow> []
      | Some [] \<Rightarrow> []
      | Some (c # cs) \<Rightarrow>
          (case content c of
             None \<Rightarrow> []
           | Some ct \<Rightarrow>
               (case parts ct of
                  None \<Rightarrow> []
                | Some ps \<Rightarrow> filter (\<lambda>t. t \<noteq> []) (List.map_filter part_text ps))))"

text \<open>Whether the first candidate of a response, if there is one, has content.\<close>

definition first_candidate_has_content :: "response \<Rightarrow> bool" where
  "first_candidate_has_content r =
     (case candidates r of
        None \<Rightarrow> True
      | Some [] \<Rightarrow> True
      | Some (c # cs) \<Rightarrow> content c \<noteq> None)"

text \<open>
  The evaluation record as the specification words it: a score that is an integer from 1
  to 10 and a feedback that is a string, each replaced by its default (0, "Good.") when
  absent or invalid; the loop stops on a score of at least 8.
\<close>

definition spec_score :: "(string \<times> json) list \<Rightarrow> int" where
  "spec_score items =
     (case map_of items ''score'' of
        Some (JInt k) \<Rightarrow> if 1 \<le> k \<and> k \<le> 10 then k else 0
      | _ \<Rightarrow> 0)"

definition spec_feedback :: "(string \<times> json) list \<Rightarrow> string" where
  "spec_feedback items =
     (case map_of items ''feedback'' of
        Some (JString s) \<Rightarrow> s
      | _ \<Rightarrow> ''Good.'')"

definition spec_evaluate :: "(string \<times> json) list \<Rightarrow> flow \<times> json" where
  "spec_evaluate items =
     (if 8 \<le> spec_score items then Break else Next, JString (spec_feedback items))"

subsection \<open>Concrete environments\<close>

text \<open>
  A service that answers the \<open>k\<close>-th call of a run with the \<open>k\<close>-th outcome of a list, a
  response of one text part, and a parser given by the table of the documents it is
  asked to read in a run (every other text is rejected). No run below reaches \<^verbatim>\<open>str()\<close>
  of a value that is not a string.
\<close>

definition reply :: "string \<Rightarrow> outcome" where
  "reply t = Returns (Response (Some [Candidate (Some (Content (Some [Part (Some t)])))]))"

definition scripted :: "outcome list \<Rightarrow> nat \<Rightarrow> request \<Rightarrow> outcome" where
  "scripted outs k req = (if k < length outs then outs ! k else Raises ''connection closed'')"

definition fixture :: "outcome list \<Rightarrow> (string \<times> json) list \<Rightarrow> env" where
  "fixture outs docs =
     \<lparr>generate_content = scripted outs, json_loads = map_of docs, py_str = (\<lambda>v. [])\<rparr>"

text \<open>Every call fails.\<close>

definition env_failing :: env where
  "env_failing = fixture [] []"

text \<open>
  The first call returns two candidates; the first has two parts with text, one without
  and one with empty text.
\<close>

definition env_parts :: env where
  "env_parts =
     fixture
       [Returns (Response (Some
          [Candidate (Some (Content (Some
             [Part (Some ''The fog ''), Part None, Part (Some []), Part (Some ''rolls in.'')]))),
           Candidate (Some (Content (Some [Part (Some ''A second candidate.'')])))]))]
       []"

text \<open>The first call returns one candidate, which has no content.\<close>

definition env_no_content :: env where
  "env_no_content = fixture [Returns (Response (Some [Candidate None]))] []"

text \<open>The first call returns the fallback's own words as its text.\<close>

definition env_echo :: env where
  "env_echo = fixture [reply ''No response generated.''] []"

text \<open>The critic accepts the first draft with a score of 9.\<close>

definition env_accept :: env where
  "env_accept =
     fixture
       [reply ''Ravens circle in fog.'', reply ''1536: Anne Boleyn was beheaded here.'',
        reply ''I walk the tower.'', reply ''{\"score\": 9, \"feedback\": \"great\"}'']
       [(''{\"score\": 9, \"feedback\": \"great\"}'',
         JObject [(''score'', JInt 9), (''feedback'', JString ''great'')])]"

text \<open>The critic answers the first draft in prose.\<close>

definition env_prose :: env where
  "env_prose =
     fixture
       [reply ''Ravens circle in fog.'', reply ''1536: Anne Boleyn was beheaded here.'',
        reply ''I walk the tower.'', reply ''Spooky enough, I like it.'']
       []"

text \<open>The critic fences its first answer, scores the first draft 3 and the second 9.\<close>

definition env_refine :: env where
  "env_refine =
     fixture
       [reply ''Ravens circle in fog.'', reply ''1536: Anne Boleyn was beheaded here.'',
        reply ''I walk the tower.'',
        reply ''```json\<newline>{\"score\": 3, \"feedback\": \"needs more dread\"}\<newline>```'',
        reply ''I walk the tower, and she walks behind me.'',
        reply ''{\"score\": 9, \"feedback\": \"great\"}'']
       [(''{\"score\": 3, \"feedback\": \"needs more dread\"}'',
         JObject [(''score'', JInt 3), (''feedback'', JString ''needs more dread'')]),
        (''{\"score\": 9, \"feedback\": \"great\"}'',
         JObject [(''score'', JInt 9), (''feedback'', JString ''great'')])]"

text \<open>The critic answers with an empty object.\<close>

definition env_bare :: env where
  "env_bare =
     fixture
       [reply ''Ravens circle in fog.'', reply ''1536: Anne Boleyn was beheaded here.'',
        reply ''I walk the tower.'', reply ''{}'',
        reply ''I walk the tower, and she walks behind me.'', reply ''{}'']
       [(''{}'', JObject [])]"

text \<open>The critic gives its score as a string.\<close>

definition env_string_score :: env where
  "env_string_score =
     fixture
       [reply ''Ravens circle in fog.'', reply ''1536: Anne Boleyn was beheaded here.'',
        reply ''I walk the tower.'', reply ''{\"score\": \"9\", \"feedback\": \"more dread\"}'']
       [(''{\"score\": \"9\", \"feedback\": \"more dread\"}'',
         JObject [(''score'', JString ''9''), (''feedback'', JString ''more dread'')])]"

text \<open>The critic scores the draft 3 and leaves the feedback empty.\<close>

definition env_empty_feedback :: env where
  "env_empty_feedback =
     fixture
       [reply ''Ravens circle in fog.'', reply ''1536: Anne Boleyn was beheaded here.'',
        reply ''I walk the tower.'', reply ''{\"score\": 3, \"feedback\": \"\"}'',
        reply ''I walk the tower again.'', reply ''{\"score\": 3, \"feedback\": \"\"}'']
       [(''{\"score\": 3, \"feedback\": \"\"}'',
         JObject [(''score'', JInt 3), (''feedback'', JString [])])]"

section \<open>Properties\<close>

subsection \<open>The gateway and the loop, step by step\<close>

lemma execute_agent_text:
  "fst (execute_agent E mime_type ag prompt image_input search w) =
     call_text E (length (sent w)) (build_request mime_type ag prompt image_input search)"
  by (simp add: execute_agent_def call_text_def handler_def logger_def Let_def
      split: outcome.split sum.split)

lemma execute_agent_sent:
  "sent (snd (execute_agent E mime_type ag prompt image_input search w)) =
     sent w @ [build_request mime_type ag prompt image_input search]"
  by (simp add: execute_agent_def handler_def logger_def Let_def split: outcome.split sum.split)

lemma loop_body_flow:
  "fst (loop_body E mime_type ctx v w) =
     fst (evaluate E
       (call_text E (Suc (length (sent w)))
          (evaluate_request mime_type
             (call_text E (length (sent w)) (generate_request E mime_type (feedback v) ctx))))
       (feedback v))"
  by (simp add: loop_body_def Let_def split_beta execute_agent_text execute_agent_sent
      generate_request_def evaluate_request_def)

lemma loop_body_vars:
  "fst (snd (loop_body E mime_type ctx v w)) =
     (let d = call_text E (length (sent w)) (generate_request E mime_type (feedback v) ctx)
      in \<lparr>memory = (memory v)\<lparr>drafts := drafts (memory v) @ [d]\<rparr>,
          current_draft = d,
          feedback = snd (evaluate E
            (call_text E (Suc (length (sent w))) (evaluate_request mime_type d)) (feedback v)),
          iterations = Suc (iterations v)\<rparr>)"
  by (simp add: loop_body_def Let_def split_beta execute_agent_text execute_agent_sent
      generate_request_def evaluate_request_def)

lemma loop_body_sent:
  "sent (snd (snd (loop_body E mime_type ctx v w))) =
     sent w @
       [generate_request E mime_type (feedback v) ctx,
        evaluate_request mime_type
          (call_text E (length (sent w)) (generate_request E mime_type (feedback v) ctx))]"
  by (simp add: loop_body_def Let_def split_beta execute_agent_text execute_agent_sent
      generate_request_def evaluate_request_def)

lemma gather_texts:
  "fst (gather E image_bytes mime_type location) =
     (visuals1 E image_bytes mime_type, lore1 E mime_type location)"
  by (simp add: gather_def Let_def split_beta execute_agent_text execute_agent_sent logger_def
      visuals1_def lore1_def vision_request_def investigation_request_def)

lemma gather_sent:
  "sent (snd (gather E image_bytes mime_type location)) =
     [vision_request image_bytes mime_type, investigation_request mime_type location]"
  by (simp add: gather_def Let_def split_beta execute_agent_sent logger_def
      vision_request_def investigation_request_def)

lemma for_loop_step:
  "for_loop E mime_type ctx (i # rest) v w =
     (if fst (loop_body E mime_type ctx v w) = Break then snd (loop_body E mime_type ctx v w)
      else for_loop E mime_type ctx rest (fst (snd (loop_body E mime_type ctx v w)))
             (snd (snd (loop_body E mime_type ctx v w))))"
  by (cases "loop_body E mime_type ctx v w"; cases "fst (loop_body E mime_type ctx v w)") auto

lemma range2: "[0..<2] = [0, Suc 0]"
  by (simp add: upt_rec)


lemma for_loop_progress:
  "\<exists>k. k \<le> length is \<and> (is = [] \<or> 0 < k) \<and>
       iterations (fst (for_loop E mime_type ctx is v w)) = iterations v + k \<and>
       length (drafts (memory (fst (for_loop E mime_type ctx is v w)))) =
         length (drafts (memory v)) + k \<and>
       length (sent (snd (for_loop E mime_type ctx is v w))) = length (sent w) + 2 * k \<and>
       (fst (for_loop E mime_type ctx is v w) = v \<or>
        current_draft (fst (for_loop E mime_type ctx is v w)) =
          last (drafts (memory (fst (for_loop E mime_type ctx is v w)))))"
proof (induction "is" arbitrary: v w)
  case Nil
  show ?case by simp
next
  case (Cons i rest)
  let ?b = "loop_body E mime_type ctx v w"
  let ?v1 = "fst (snd ?b)" and ?w1 = "snd (snd ?b)"
  have v1: "iterations ?v1 = Suc (iterations v)"
    "length (drafts (memory ?v1)) = Suc (length (drafts (memory v)))"
    "current_draft ?v1 = last (drafts (memory ?v1))"
    by (simp_all add: loop_body_vars Let_def)
  have w1: "length (sent ?w1) = length (sent w) + 2"
    by (simp add: loop_body_sent)
  show ?case
  proof (cases "fst ?b = Break")
    case True
    then have "for_loop E mime_type ctx (i # rest) v w = (?v1, ?w1)"
      by (subst for_loop_step) simp
    with v1 w1 show ?thesis
      by (intro exI [of _ 1]) simp
  next
    case False
    then have step:
      "for_loop E mime_type ctx (i # rest) v w = for_loop E mime_type ctx rest ?v1 ?w1"
      by (subst for_loop_step) simp
    from Cons.IH [of ?v1 ?w1] obtain k where k: "k \<le> length rest"
      "iterations (fst (for_loop E mime_type ctx rest ?v1 ?w1)) = iterations ?v1 + k"
      "length (drafts (memory (fst (for_loop E mime_type ctx rest ?v1 ?w1)))) =
         length (drafts (memory ?v1)) + k"
      "length (sent (snd (for_loop E mime_type ctx rest ?v1 ?w1))) = length (sent ?w1) + 2 * k"
      "fst (for_loop E mime_type ctx rest ?v1 ?w1) = ?v1 \<or>
       current_draft (fst (for_loop E mime_type ctx rest ?v1 ?w1)) =
          last (drafts (memory (fst (for_loop E mime_type ctx rest ?v1 ?w1))))"
      by blast
    from k(5) v1(3)
    have "current_draft (fst (for_loop E mime_type ctx rest ?v1 ?w1)) =
          last (drafts (memory (fst (for_loop E mime_type ctx rest ?v1 ?w1))))"
      by auto
    with k(1-4) v1 w1 show ?thesis
      unfolding step by (intro exI [of _ "Suc k"]) simp
  qed
qed

text \<open>The run, pass by pass.\<close>

lemma loop_exit_vars:
  "fst (loop_exit E image_bytes mime_type location) =
     (if stops_after1 E image_bytes mime_type location
      then \<lparr>memory = \<lparr>visuals = visuals1 E image_bytes mime_type,
                       lore = lore1 E mime_type location,
                       drafts = [draft1 E image_bytes mime_type location],
                       final_myth = []\<rparr>,
            current_draft = draft1 E image_bytes mime_type location,
            feedback = feedback1 E image_bytes mime_type location,
            iterations = 1\<rparr>
      else \<lparr>memory = \<lparr>visuals = visuals1 E image_bytes mime_type,
                       lore = lore1 E mime_type location,
                       drafts = [draft1 E image_bytes mime_type location,
                                 draft2 E image_bytes mime_type location],
                       final_myth = []\<rparr>,
            current_draft = draft2 E image_bytes mime_type location,
            feedback =
              snd (evaluate E
                (call_text E 5 (evaluate_request mime_type (draft2 E image_bytes mime_type location)))
                (feedback1 E image_bytes mime_type location)),
            iterations = 2\<rparr>)"
  by (simp add: loop_exit_def split_beta Let_def range2 for_loop_step gather_texts gather_sent
      logger_def loop_body_flow loop_body_vars loop_body_sent stops_after1_def eval_result1_def
      draft1_def draft2_def context1_def feedback1_def eval_nat_numeral del: for_loop.simps(2))

lemma loop_exit_sent:
  "sent (snd (loop_exit E image_bytes mime_type location)) =
     [vision_request image_bytes mime_type,
      investigation_request mime_type location,
      generate_request E mime_type (JString []) (context1 E image_bytes mime_type location),
      evaluate_request mime_type (draft1 E image_bytes mime_type location)] @
     (if stops_after1 E image_bytes mime_type location then []
      else [generate_request E mime_type (feedback1 E image_bytes mime_type location)
              (context1 E image_bytes mime_type location),
            evaluate_request mime_type (draft2 E image_bytes mime_type location)])"
  by (simp add: loop_exit_def split_beta Let_def range2 for_loop_step gather_texts gather_sent
      logger_def loop_body_flow loop_body_vars loop_body_sent stops_after1_def eval_result1_def
      draft1_def draft2_def context1_def feedback1_def eval_nat_numeral del: for_loop.simps(2))

lemma run_pipeline_memory:
  "fst (run_pipeline E image_bytes mime_type location) =
     \<lparr>visuals = visuals1 E image_bytes mime_type,
      lore = lore1 E mime_type location,
      drafts =
        (if stops_after1 E image_bytes mime_type location
         then [draft1 E image_bytes mime_type location]
         else [draft1 E image_bytes mime_type location, draft2 E image_bytes mime_type location]),
      final_myth =
        (if stops_after1 E image_bytes mime_type location
         then draft1 E image_bytes mime_type location
         else draft2 E image_bytes mime_type location)\<rparr>"
  by (simp add: run_pipeline_def split_beta loop_exit_vars)

lemma run_pipeline_world:
  "snd (run_pipeline E image_bytes mime_type location) =
   snd (loop_exit E image_bytes mime_type location)"
  by (simp add: run_pipeline_def split_beta)

lemma run_pipeline_sent:
  "sent (snd (run_pipeline E image_bytes mime_type location)) =
     [vision_request image_bytes mime_type,
      investigation_request mime_type location,
      generate_request E mime_type (JString []) (context1 E image_bytes mime_type location),
      evaluate_request mime_type (draft1 E image_bytes mime_type location)] @
     (if stops_after1 E image_bytes mime_type location then []
      else [generate_request E mime_type (feedback1 E image_bytes mime_type location)
              (context1 E image_bytes mime_type location),
            evaluate_request mime_type (draft2 E image_bytes mime_type location)])"
  by (simp add: run_pipeline_world loop_exit_sent)

lemma second_generate_request:
  "\<not> stops_after1 E image_bytes mime_type location \<Longrightarrow>
   sent (snd (run_pipeline E image_bytes mime_type location)) ! 4 =
     generate_request E mime_type (feedback1 E image_bytes mime_type location)
       (context1 E image_bytes mime_type location)"
  by (simp add: run_pipeline_sent)

subsection \<open>Context compaction\<close>

lemma take_drop_middle:
  "length xs = n \<Longrightarrow> take (length ys) (drop n (xs @ ys @ zs)) = ys"
  by simp

text \<open>
  C8. The context package is a function of the location, the visuals and the lore alone:
  three lines labelled \<^verbatim>\<open>LOCATION:\<close>, \<^verbatim>\<open>VISUALS:\<close> and \<^verbatim>\<open>VERIFIED LORE:\<close>, each label
  followed by its value. Each value stands in the output once and unchanged: the output
  is the 37 characters of the empty template plus exactly the characters of the three
  values, and each value can be read back whole at its place.
\<close>

theorem context_package_three_labelled_lines:
  "context_package location vis lor =
     concat [''LOCATION: '' @ location @ ''\<newline>'',
             ''VISUALS: '' @ vis @ ''\<newline>'',
             ''VERIFIED LORE: '' @ lor @ ''\<newline>''] \<and>
   context_package [] [] [] = ''LOCATION: \<newline>VISUALS: \<newline>VERIFIED LORE: \<newline>'' \<and>
   length (context_package location vis lor) =
     37 + length location + length vis + length lor \<and>
   mset (context_package location vis lor) =
     mset (context_package [] [] []) + mset location + mset vis + mset lor \<and>
   take (length location) (drop 10 (context_package location vis lor)) = location \<and>
   take (length vis) (drop (20 + length location) (context_package location vis lor)) =
     vis \<and>
   take (length lor)
     (drop (36 + length location + length vis) (context_package location vis lor)) = lor"
proof (intro conjI)
  show "take (length location) (drop 10 (context_package location vis lor)) = location"
    using take_drop_middle [of "''LOCATION: ''" 10 location
        "''\<newline>VISUALS: '' @ vis @ ''\<newline>VERIFIED LORE: '' @ lor @ ''\<newline>''"]
    by (simp add: context_package_def)
  show "take (length vis) (drop (20 + length location) (context_package location vis lor)) = vis"
    using take_drop_middle [of "''LOCATION: '' @ location @ ''\<newline>VISUALS: ''"
        "20 + length location" vis "''\<newline>VERIFIED LORE: '' @ lor @ ''\<newline>''"]
    by (simp add: context_package_def)
  show "take (length lor)
     (drop (36 + length location + length vis) (context_package location vis lor)) = lor"
    using take_drop_middle
      [of "''LOCATION: '' @ location @ ''\<newline>VISUALS: '' @ vis @ ''\<newline>VERIFIED LORE: ''"
        "36 + length location + length vis" lor "''\<newline>''"]
    by (simp add: context_package_def)
qed (simp_all add: context_package_def)

subsection \<open>Session memory\<close>

text \<open>
  C1. In the session memory that a run returns, the number of drafts is the number of
  passes the refine loop made, which is 1 or 2, and the final myth is the last draft.
  Nothing is assumed about the evaluator's answers, so the statement covers the runs in
  which the loop is left because the answer could not be parsed.
\<close>

theorem drafts_count_iterations_final_is_last:
  "length (drafts (fst (run_pipeline E image_bytes mime_type location))) =
     iterations (fst (loop_exit E image_bytes mime_type location)) \<and>
   (iterations (fst (loop_exit E image_bytes mime_type location)) = 1 \<or>
    iterations (fst (loop_exit E image_bytes mime_type location)) = 2) \<and>
   drafts (fst (run_pipeline E image_bytes mime_type location)) \<noteq> [] \<and>
   final_myth (fst (run_pipeline E image_bytes mime_type location)) =
     last (drafts (fst (run_pipeline E image_bytes mime_type location)))"
  by (simp add: run_pipeline_memory loop_exit_vars)

subsection \<open>Bound on the calls\<close>

text \<open>
  C9. In every run the refine loop makes at most 2 passes, and the run issues between 4
  and 6 gateway invocations: the 2 of the gathering phase and 2 for each pass.
\<close>

theorem at_most_two_passes_four_to_six_calls:
  "iterations (fst (loop_exit E image_bytes mime_type location)) \<le> 2 \<and>
   4 \<le> length (sent (snd (run_pipeline E image_bytes mime_type location))) \<and>
   length (sent (snd (run_pipeline E image_bytes mime_type location))) \<le> 6 \<and>
   length (sent (snd (run_pipeline E image_bytes mime_type location))) =
     2 + 2 * iterations (fst (loop_exit E image_bytes mime_type location))"
proof -
  define w2 where "w2 = snd (gather E image_bytes mime_type location)"
  define w3 where "w3 = logger INFO ''--- Phase 3: Loop ---'' w2"
  define ctx where
    "ctx = context_package location (fst (fst (gather E image_bytes mime_type location)))
             (snd (fst (gather E image_bytes mime_type location)))"
  define v0 where
    "v0 = \<lparr>memory = \<lparr>visuals = fst (fst (gather E image_bytes mime_type location)),
                       lore = snd (fst (gather E image_bytes mime_type location)),
                       drafts = [], final_myth = []\<rparr>,
            current_draft = [], feedback = JString [], iterations = 0\<rparr>"
  have exit: "loop_exit E image_bytes mime_type location = for_loop E mime_type ctx [0..<2] v0 w3"
    by (simp add: loop_exit_def split_beta Let_def w2_def w3_def ctx_def v0_def)
  have start: "length (sent w3) = 2"
    by (simp add: w3_def w2_def logger_def gather_sent)
  from for_loop_progress [of "[0..<2]" E mime_type ctx v0 w3]
  obtain k where k: "k \<le> 2" "0 < k"
    "iterations (fst (for_loop E mime_type ctx [0..<2] v0 w3)) = iterations v0 + k"
    "length (sent (snd (for_loop E mime_type ctx [0..<2] v0 w3))) = length (sent w3) + 2 * k"
    by auto
  have "iterations v0 = 0" by (simp add: v0_def)
  with k start show ?thesis
    by (simp add: run_pipeline_world exit)
qed

subsection \<open>The gateway's result\<close>

lemma add_parts_texts:
  "foldl add_part acc ps = acc @ concat (filter (\<lambda>t. t \<noteq> []) (List.map_filter part_text ps))"
proof (induction ps arbitrary: acc)
  case Nil
  show ?case by simp
next
  case (Cons p ps)
  show ?case
  proof (cases "part_text p")
    case None
    with Cons.IH [of acc] show ?thesis
      by (simp add: add_part_def)
  next
    case (Some t)
    with Cons.IH [of "acc @ t"] Cons.IH [of acc] show ?thesis
      by (simp add: add_part_def)
  qed
qed

lemma concat_nonempty_texts:
  "concat (filter (\<lambda>t. t \<noteq> []) ts) = [] \<longleftrightarrow> filter (\<lambda>t. t \<noteq> []) ts = []"
  by (induction ts) auto

lemma extract_text_parts:
  "first_candidate_has_content r \<Longrightarrow>
   extract_text r =
     Inr (if text_parts r = [] then ''No response generated.'' else concat (text_parts r))"
proof (cases r)
  case (Response cands)
  assume has: "first_candidate_has_content r"
  show ?thesis
  proof (cases cands)
    case None
    with Response show ?thesis by (simp add: extract_text_def text_parts_def fallback_def)
  next
    case (Some cs)
    show ?thesis
    proof (cases cs)
      case Nil
      with Response Some show ?thesis by (simp add: extract_text_def text_parts_def fallback_def)
    next
      case (Cons c rest)
      with Response Some has obtain ct where ct: "content c = Some ct"
        by (auto simp add: first_candidate_has_content_def)
      show ?thesis
      proof (cases "parts ct")
        case None
        with Response Some Cons ct show ?thesis
          by (simp add: extract_text_def text_parts_def fallback_def)
      next
        case (Some ps)
        with Response \<open>cands = Some cs\<close> Cons ct show ?thesis
          using concat_nonempty_texts [of "List.map_filter part_text ps"]
          by (simp add: extract_text_def text_parts_def fallback_def add_parts_texts)
      qed
    qed
  qed
qed

lemma extract_text_no_content:
  "candidates r = Some (c # cs) \<Longrightarrow> content c = None \<Longrightarrow>
   extract_text r = Inl no_parts_attribute \<and> text_parts r = []"
  by (simp add: extract_text_def text_parts_def)

text \<open>
  C7 (as amended). When the completion call returns a response whose first candidate, if
  there is one, has content, the gateway's text is the in-order concatenation of the
  text-bearing parts of that candidate if there is one, and the literal
  "No response generated." if there is none. The literal is thus returned exactly when
  there is no text-bearing part or the parts themselves spell it.
\<close>

theorem gateway_text_of_response:
  "generate_content E (length (sent w)) (build_request mime_type ag prompt image_input search) =
     Returns r \<Longrightarrow>
   first_candidate_has_content r \<Longrightarrow>
   fst (execute_agent E mime_type ag prompt image_input search w) =
     (if text_parts r = [] then ''No response generated.'' else concat (text_parts r)) \<and>
   (fst (execute_agent E mime_type ag prompt image_input search w) = ''No response generated.'' \<longleftrightarrow>
      text_parts r = [] \<or> concat (text_parts r) = ''No response generated.'')"
  by (simp add: execute_agent_text call_text_def extract_text_parts)

theorem gateway_text_of_response_witness:
  "generate_content env_parts 0
      (build_request ''image/png'' mythmaker_agent ''Write the myth.'' None False) =
     Returns (Response (Some
          [Candidate (Some (Content (Some
             [Part (Some ''The fog ''), Part None, Part (Some []), Part (Some ''rolls in.'')]))),
           Candidate (Some (Content (Some [Part (Some ''A second candidate.'')])))])) \<and>
   first_candidate_has_content (Response (Some
          [Candidate (Some (Content (Some
             [Part (Some ''The fog ''), Part None, Part (Some []), Part (Some ''rolls in.'')]))),
           Candidate (Some (Content (Some [Part (Some ''A second candidate.'')])))])) \<and>
   fst (execute_agent env_parts ''image/png'' mythmaker_agent ''Write the myth.'' None False
          \<lparr>sent = [], log = []\<rparr>) = ''The fog rolls in.''"
proof -
  let ?r = "Response (Some
          [Candidate (Some (Content (Some
             [Part (Some ''The fog ''), Part None, Part (Some []), Part (Some ''rolls in.'')]))),
           Candidate (Some (Content (Some [Part (Some ''A second candidate.'')])))])"
  have call: "generate_content env_parts (length (sent \<lparr>sent = [], log = []\<rparr>))
      (build_request ''image/png'' mythmaker_agent ''Write the myth.'' None False) = Returns ?r"
    by (simp add: env_parts_def fixture_def scripted_def)
  have has: "first_candidate_has_content ?r"
    by (simp add: first_candidate_has_content_def)
  have texts: "text_parts ?r = [''The fog '', ''rolls in.'']"
    by (simp add: text_parts_def)
  from gateway_text_of_response [OF call has] texts call has show ?thesis
    by simp
qed

text \<open>
  C7 as stated fails on a returned response whose first candidate has no content: no text
  part exists, and the gateway returns not the literal but "Error: " with the message of
  the \<^verbatim>\<open>AttributeError\<close> that line 112 raises inside the \<^verbatim>\<open>try\<close>. Its "only if" fails as
  well: a response whose only part reads "No response generated." has a text part, and the
  gateway returns the literal.
\<close>

theorem no_content_yields_error_not_fallback:
  "generate_content env_no_content 0
      (build_request ''image/png'' mythmaker_agent ''Write the myth.'' None False) =
     Returns (Response (Some [Candidate None])) \<and>
   text_parts (Response (Some [Candidate None])) = [] \<and>
   fst (execute_agent env_no_content ''image/png'' mythmaker_agent ''Write the myth.'' None False
          \<lparr>sent = [], log = []\<rparr>) =
     ''Error: '' @ [CHR 0x27] @ ''NoneType'' @ [CHR 0x27] @ '' object has no attribute '' @
       [CHR 0x27] @ ''parts'' @ [CHR 0x27] \<and>
   fst (execute_agent env_no_content ''image/png'' mythmaker_agent ''Write the myth.'' None False
          \<lparr>sent = [], log = []\<rparr>) \<noteq> ''No response generated.'' \<and>
   generate_content env_echo 0
      (build_request ''image/png'' mythmaker_agent ''Write the myth.'' None False) =
     Returns (Response (Some
       [Candidate (Some (Content (Some [Part (Some ''No response generated.'')])))])) \<and>
   text_parts (Response (Some
       [Candidate (Some (Content (Some [Part (Some ''No response generated.'')])))])) =
     [''No response generated.''] \<and>
   fst (execute_agent env_echo ''image/png'' mythmaker_agent ''Write the myth.'' None False
          \<lparr>sent = [], log = []\<rparr>) = ''No response generated.''"
  by (simp add: env_no_content_def env_echo_def fixture_def scripted_def reply_def
      execute_agent_def handler_def logger_def extract_text_def fallback_def add_part_def
      text_parts_def no_parts_attribute_def)

text \<open>
  C2. When the completion call of a gateway invocation raises, the invocation returns
  "Error: " followed by the failure message, and the request counts as sent. The run
  goes on: a failure of the Visionary's, the Investigator's or the Bard's first call puts
  the error text into the session memory and into the next prompt, and the run still
  issues its four calls or more.
\<close>

theorem gateway_failure_recovered:
  "(generate_content E (length (sent w)) (build_request mime_type ag prompt image_input search) =
      Raises msg \<longrightarrow>
    fst (execute_agent E mime_type ag prompt image_input search w) = ''Error: '' @ msg \<and>
    sent (snd (execute_agent E mime_type ag prompt image_input search w)) =
      sent w @ [build_request mime_type ag prompt image_input search]) \<and>
   (generate_content E 0 (vision_request image_bytes mime_type) = Raises msg \<longrightarrow>
    visuals (fst (run_pipeline E image_bytes mime_type location)) = ''Error: '' @ msg \<and>
    sent (snd (run_pipeline E image_bytes mime_type location)) ! 2 =
      generate_request E mime_type (JString [])
        (context_package location (''Error: '' @ msg) (lore1 E mime_type location)) \<and>
    4 \<le> length (sent (snd (run_pipeline E image_bytes mime_type location)))) \<and>
   (generate_content E 1 (investigation_request mime_type location) = Raises msg \<longrightarrow>
    lore (fst (run_pipeline E image_bytes mime_type location)) = ''Error: '' @ msg \<and>
    sent (snd (run_pipeline E image_bytes mime_type location)) ! 2 =
      generate_request E mime_type (JString [])
        (context_package location (visuals1 E image_bytes mime_type) (''Error: '' @ msg)) \<and>
    4 \<le> length (sent (snd (run_pipeline E image_bytes mime_type location)))) \<and>
   (generate_content E 2
      (generate_request E mime_type (JString []) (context1 E image_bytes mime_type location)) =
      Raises msg \<longrightarrow>
    hd (drafts (fst (run_pipeline E image_bytes mime_type location))) = ''Error: '' @ msg \<and>
    sent (snd (run_pipeline E image_bytes mime_type location)) ! 3 =
      evaluate_request mime_type (''Error: '' @ msg) \<and>
    4 \<le> length (sent (snd (run_pipeline E image_bytes mime_type location))))"
proof (intro conjI impI)
  assume "generate_content E (length (sent w))
      (build_request mime_type ag prompt image_input search) = Raises msg"
  then show "fst (execute_agent E mime_type ag prompt image_input search w) = ''Error: '' @ msg"
    by (simp add: execute_agent_text call_text_def)
next
  show "sent (snd (execute_agent E mime_type ag prompt image_input search w)) =
      sent w @ [build_request mime_type ag prompt image_input search]"
    by (rule execute_agent_sent)
next
  assume "generate_content E 0 (vision_request image_bytes mime_type) = Raises msg"
  then have vis: "visuals1 E image_bytes mime_type = ''Error: '' @ msg"
    by (simp add: visuals1_def call_text_def)
  then show "visuals (fst (run_pipeline E image_bytes mime_type location)) = ''Error: '' @ msg"
    by (simp add: run_pipeline_memory)
  from vis show "sent (snd (run_pipeline E image_bytes mime_type location)) ! 2 =
      generate_request E mime_type (JString [])
        (context_package location (''Error: '' @ msg) (lore1 E mime_type location))"
    by (simp add: run_pipeline_sent context1_def)
next
  assume "generate_content E 1 (investigation_request mime_type location) = Raises msg"
  then have lor: "lore1 E mime_type location = ''Error: '' @ msg"
    by (simp add: lore1_def call_text_def)
  then show "lore (fst (run_pipeline E image_bytes mime_type location)) = ''Error: '' @ msg"
    by (simp add: run_pipeline_memory)
  from lor show "sent (snd (run_pipeline E image_bytes mime_type location)) ! 2 =
      generate_request E mime_type (JString [])
        (context_package location (visuals1 E image_bytes mime_type) (''Error: '' @ msg))"
    by (simp add: run_pipeline_sent context1_def)
next
  assume "generate_content E 2
      (generate_request E mime_type (JString []) (context1 E image_bytes mime_type location)) =
      Raises msg"
  then have d: "draft1 E image_bytes mime_type location = ''Error: '' @ msg"
    by (simp add: draft1_def call_text_def)
  then show "hd (drafts (fst (run_pipeline E image_bytes mime_type location))) = ''Error: '' @ msg"
    by (simp add: run_pipeline_memory)
  from d show "sent (snd (run_pipeline E image_bytes mime_type location)) ! 3 =
      evaluate_request mime_type (''Error: '' @ msg)"
    by (simp add: run_pipeline_sent)
qed (simp_all add: run_pipeline_sent)

theorem gateway_failure_recovered_witness:
  "generate_content env_failing 0 (vision_request ''img'' ''image/png'') =
     Raises ''connection closed'' \<and>
   fst (execute_agent env_failing ''image/png'' visionary_agent ''Describe the atmosphere.''
          (Some ''img'') False \<lparr>sent = [], log = []\<rparr>) = ''Error: connection closed'' \<and>
   visuals (fst (run_pipeline env_failing ''img'' ''image/png'' ''Tower of London'')) =
     ''Error: connection closed'' \<and>
   lore (fst (run_pipeline env_failing ''img'' ''image/png'' ''Tower of London'')) =
     ''Error: connection closed'' \<and>
   hd (drafts (fst (run_pipeline env_failing ''img'' ''image/png'' ''Tower of London''))) =
     ''Error: connection closed'' \<and>
   4 \<le> length (sent (snd (run_pipeline env_failing ''img'' ''image/png'' ''Tower of London'')))"
proof -
  have fails: "generate_content env_failing k req = Raises ''connection closed''" for k req
    by (simp add: env_failing_def fixture_def scripted_def)
  show ?thesis
    using gateway_failure_recovered [of env_failing "\<lparr>sent = [], log = []\<rparr>" "''image/png''"
        visionary_agent "''Describe the atmosphere.''" "Some ''img''" False "''connection closed''"
        "''img''" "''Tower of London''"]
    by (simp add: fails vision_request_def)
qed

subsection \<open>The evaluation step\<close>

lemma evaluate_object:
  "json_loads E (clean_json ev) = Some (JObject items) \<Longrightarrow>
   evaluate E ev fb =
     (case py_ge (case map_of items ''score'' of None \<Rightarrow> JInt 0 | Some sc \<Rightarrow> sc) 8 of
        Inr False \<Rightarrow> Next
      | _ \<Rightarrow> Break,
      case map_of items ''feedback'' of None \<Rightarrow> JString ''Good.'' | Some f \<Rightarrow> f)"
  by (simp add: evaluate_def try_block_def dict_get_def split: option.split sum.split)

lemma evaluate_raise:
  "fst (try_block E ev fb) = Inl e \<Longrightarrow> fst (evaluate E ev fb) = Break"
  by (cases "try_block E ev fb") (simp add: evaluate_def)

lemma try_block_unparsable:
  "json_loads E (clean_json ev) = None \<Longrightarrow> try_block E ev fb = (Inl ParseError, fb)"
  by (simp add: try_block_def)

lemma try_block_not_object:
  "json_loads E (clean_json ev) = Some d \<Longrightarrow> (\<And>items. d \<noteq> JObject items) \<Longrightarrow>
   try_block E ev fb = (Inl AttributeError, fb)"
  by (cases d) (auto simp add: try_block_def dict_get_def)

lemma try_block_score_not_number:
  "json_loads E (clean_json ev) = Some (JObject items) \<Longrightarrow> map_of items ''score'' = Some sc \<Longrightarrow>
   py_ge sc 8 = Inl e \<Longrightarrow> fst (try_block E ev fb) = Inl e"
  by (simp add: try_block_def dict_get_def split: option.split)

lemma env_accept_draft1:
  "draft1 env_accept ''img'' ''image/png'' ''Tower of London'' = ''I walk the tower.''"
  by code_simp

text \<open>
  C6. If the evaluator's answer to the first draft parses to a JSON object whose score is
  at least 8 (as \<^verbatim>\<open>{"score": 9, "feedback": "great"}\<close> does), the loop makes exactly one
  pass: the run issues four calls, and the only draft, the first, is the final myth.
\<close>

theorem accepted_after_first_pass:
  "json_loads E (clean_json (eval_result1 E image_bytes mime_type location)) =
     Some (JObject items) \<Longrightarrow>
   map_of items ''score'' = Some sc \<Longrightarrow> py_ge sc 8 = Inr True \<Longrightarrow>
   iterations (fst (loop_exit E image_bytes mime_type location)) = 1 \<and>
   drafts (fst (run_pipeline E image_bytes mime_type location)) =
     [draft1 E image_bytes mime_type location] \<and>
   final_myth (fst (run_pipeline E image_bytes mime_type location)) =
     draft1 E image_bytes mime_type location \<and>
   length (sent (snd (run_pipeline E image_bytes mime_type location))) = 4"
proof -
  assume "json_loads E (clean_json (eval_result1 E image_bytes mime_type location)) =
     Some (JObject items)" and "map_of items ''score'' = Some sc" and "py_ge sc 8 = Inr True"
  then have "stops_after1 E image_bytes mime_type location"
    by (simp add: stops_after1_def evaluate_object)
  then show ?thesis
    by (simp add: run_pipeline_memory run_pipeline_sent loop_exit_vars)
qed

theorem accepted_after_first_pass_witness:
  "json_loads env_accept (clean_json (eval_result1 env_accept ''img'' ''image/png'' ''Tower of London'')) =
     Some (JObject [(''score'', JInt 9), (''feedback'', JString ''great'')]) \<and>
   py_ge (JInt 9) 8 = Inr True \<and>
   iterations (fst (loop_exit env_accept ''img'' ''image/png'' ''Tower of London'')) = 1 \<and>
   drafts (fst (run_pipeline env_accept ''img'' ''image/png'' ''Tower of London'')) =
     [''I walk the tower.''] \<and>
   final_myth (fst (run_pipeline env_accept ''img'' ''image/png'' ''Tower of London'')) =
     ''I walk the tower.''"
proof -
  have parsed:
    "json_loads env_accept
       (clean_json (eval_result1 env_accept ''img'' ''image/png'' ''Tower of London'')) =
     Some (JObject [(''score'', JInt 9), (''feedback'', JString ''great'')])"
    by code_simp
  have score: "map_of [(''score'', JInt 9), (''feedback'', JString ''great'')] ''score'' = Some (JInt 9)"
    by simp
  have ge: "py_ge (JInt 9) 8 = Inr True"
    by (simp add: py_ge_def)
  from accepted_after_first_pass [OF parsed score ge] parsed ge show ?thesis
    by (simp add: env_accept_draft1)
qed

text \<open>
  C5. If the body of the \<^verbatim>\<open>try\<close> statement raises on the evaluator's answer (the parser
  rejects the cleaned text, the parsed value is not an object, or the score cannot be
  compared with 8), the loop is left at once, however many passes remain, and the draft
  of this pass is the current draft and the last of the drafts. No exception leaves the
  loop: the exception is a value of \<open>try_block\<close> that \<open>evaluate\<close> turns into \<open>Break\<close>. For
  the first pass of a run: the loop makes one pass and the first draft is the final myth.
\<close>

theorem parse_failure_ends_loop:
  "(fst (try_block E
           (call_text E (Suc (length (sent w)))
              (evaluate_request mime_type
                 (call_text E (length (sent w)) (generate_request E mime_type (feedback v) ctx))))
           (feedback v)) = Inl e \<longrightarrow>
    for_loop E mime_type ctx (i # rest) v w = snd (loop_body E mime_type ctx v w) \<and>
    iterations (fst (for_loop E mime_type ctx (i # rest) v w)) = Suc (iterations v) \<and>
    current_draft (fst (for_loop E mime_type ctx (i # rest) v w)) =
      call_text E (length (sent w)) (generate_request E mime_type (feedback v) ctx) \<and>
    drafts (memory (fst (for_loop E mime_type ctx (i # rest) v w))) =
      drafts (memory v) @
        [call_text E (length (sent w)) (generate_request E mime_type (feedback v) ctx)]) \<and>
   (fst (try_block E (eval_result1 E image_bytes mime_type location) (JString [])) = Inl e \<longrightarrow>
    iterations (fst (loop_exit E image_bytes mime_type location)) = 1 \<and>
    drafts (fst (run_pipeline E image_bytes mime_type location)) =
      [draft1 E image_bytes mime_type location] \<and>
    final_myth (fst (run_pipeline E image_bytes mime_type location)) =
      draft1 E image_bytes mime_type location \<and>
    length (sent (snd (run_pipeline E image_bytes mime_type location))) = 4)"
proof (intro conjI impI)
  assume "fst (try_block E (eval_result1 E image_bytes mime_type location) (JString [])) = Inl e"
  then have stop: "stops_after1 E image_bytes mime_type location"
    by (simp add: stops_after1_def evaluate_raise)
  then show "iterations (fst (loop_exit E image_bytes mime_type location)) = 1"
    by (simp add: loop_exit_vars)
  from stop show "drafts (fst (run_pipeline E image_bytes mime_type location)) =
      [draft1 E image_bytes mime_type location]"
    by (simp add: run_pipeline_memory)
  from stop show "final_myth (fst (run_pipeline E image_bytes mime_type location)) =
      draft1 E image_bytes mime_type location"
    by (simp add: run_pipeline_memory)
  from stop show "length (sent (snd (run_pipeline E image_bytes mime_type location))) = 4"
    by (simp add: run_pipeline_sent)
next
  assume "fst (try_block E
           (call_text E (Suc (length (sent w)))
              (evaluate_request mime_type
                 (call_text E (length (sent w)) (generate_request E mime_type (feedback v) ctx))))
           (feedback v)) = Inl e"
  then have "fst (loop_body E mime_type ctx v w) = Break"
    by (simp add: loop_body_flow evaluate_raise)
  then have stop: "for_loop E mime_type ctx (i # rest) v w = snd (loop_body E mime_type ctx v w)"
    by (subst for_loop_step) simp
  then show "for_loop E mime_type ctx (i # rest) v w = snd (loop_body E mime_type ctx v w)" .
  from stop show "iterations (fst (for_loop E mime_type ctx (i # rest) v w)) = Suc (iterations v)"
    by (simp add: loop_body_vars Let_def)
  from stop show "current_draft (fst (for_loop E mime_type ctx (i # rest) v w)) =
      call_text E (length (sent w)) (generate_request E mime_type (feedback v) ctx)"
    by (simp add: loop_body_vars Let_def)
  from stop show "drafts (memory (fst (for_loop E mime_type ctx (i # rest) v w))) =
      drafts (memory v) @
        [call_text E (length (sent w)) (generate_request E mime_type (feedback v) ctx)]"
    by (simp add: loop_body_vars Let_def)
qed

theorem parse_failure_ends_loop_witness:
  "eval_result1 env_prose ''img'' ''image/png'' ''Tower of London'' = ''Spooky enough, I like it.'' \<and>
   try_block env_prose ''Spooky enough, I like it.'' (JString []) = (Inl ParseError, JString []) \<and>
   iterations (fst (loop_exit env_prose ''img'' ''image/png'' ''Tower of London'')) = 1 \<and>
   final_myth (fst (run_pipeline env_prose ''img'' ''image/png'' ''Tower of London'')) =
     ''I walk the tower.'' \<and>
   iterations
     (fst (for_loop env_prose ''image/png'' ''LOCATION: Tower of London'' [0, 1]
        \<lparr>memory = \<lparr>visuals = [], lore = [], drafts = [], final_myth = []\<rparr>,
           current_draft = [], feedback = JString [], iterations = 0\<rparr>
        \<lparr>sent = [vision_request ''img'' ''image/png'',
                   investigation_request ''image/png'' ''Tower of London''],
           log = []\<rparr>)) = 1"
proof -
  have ev: "eval_result1 env_prose ''img'' ''image/png'' ''Tower of London'' =
      ''Spooky enough, I like it.''"
    by code_simp
  have tb: "try_block env_prose ''Spooky enough, I like it.'' (JString []) =
      (Inl ParseError, JString [])"
    by code_simp
  have d: "draft1 env_prose ''img'' ''image/png'' ''Tower of London'' = ''I walk the tower.''"
    by code_simp
  let ?v = "\<lparr>memory = \<lparr>visuals = [], lore = [], drafts = [], final_myth = []\<rparr>,
           current_draft = [], feedback = JString [], iterations = 0\<rparr>"
  let ?w = "\<lparr>sent = [vision_request ''img'' ''image/png'',
                   investigation_request ''image/png'' ''Tower of London''],
           log = []\<rparr>"
  have pass: "fst (try_block env_prose
           (call_text env_prose (Suc (length (sent ?w)))
              (evaluate_request ''image/png''
                 (call_text env_prose (length (sent ?w))
                    (generate_request env_prose ''image/png'' (feedback ?v)
                       ''LOCATION: Tower of London''))))
           (feedback ?v)) = Inl ParseError"
    by code_simp
  have fail1: "fst (try_block env_prose
      (eval_result1 env_prose ''img'' ''image/png'' ''Tower of London'') (JString [])) =
      Inl ParseError"
    by (simp add: ev tb)
  note stops = parse_failure_ends_loop [of env_prose ?w "''image/png''" ?v
        "''LOCATION: Tower of London''" ParseError 0 "[1]" "''img''" "''Tower of London''"]
  from stops pass
  have "iterations (fst (for_loop env_prose ''image/png'' ''LOCATION: Tower of London'' [0, 1]
      ?v ?w)) = Suc (iterations ?v)"
    by blast
  moreover from stops fail1
  have "iterations (fst (loop_exit env_prose ''img'' ''image/png'' ''Tower of London'')) = 1"
    and "final_myth (fst (run_pipeline env_prose ''img'' ''image/png'' ''Tower of London'')) =
      draft1 env_prose ''img'' ''image/png'' ''Tower of London''"
    by blast+
  ultimately show ?thesis
    using ev tb d by simp
qed

text \<open>
  C3 (as amended). When the evaluator's answer parses to a JSON object, an absent score
  counts as 0, so that the loop goes on, and an absent feedback as "Good.", which the
  next prompt then carries. A field that is present is used as it is: the loop stops
  unless the score compares below 8 (a score that is not a number raises and stops the
  loop), and the feedback is kept whatever its type.
\<close>

theorem absent_fields_default:
  "json_loads E (clean_json (eval_result1 E image_bytes mime_type location)) =
     Some (JObject items) \<Longrightarrow>
   (map_of items ''score'' = None \<longrightarrow>
      \<not> stops_after1 E image_bytes mime_type location \<and>
      iterations (fst (loop_exit E image_bytes mime_type location)) = 2) \<and>
   (map_of items ''feedback'' = None \<longrightarrow>
      feedback1 E image_bytes mime_type location = JString ''Good.'') \<and>
   (map_of items ''score'' = None \<and> map_of items ''feedback'' = None \<longrightarrow>
      contents (sent (snd (run_pipeline E image_bytes mime_type location)) ! 4) =
        [Prompt (''Refine this myth based on feedback: Good.'' @ ''\<newline>\<newline>CONTEXT:\<newline>'' @
                 context1 E image_bytes mime_type location)]) \<and>
   (\<forall>sc. map_of items ''score'' = Some sc \<longrightarrow>
      stops_after1 E image_bytes mime_type location = (py_ge sc 8 \<noteq> Inr False)) \<and>
   (\<forall>f. map_of items ''feedback'' = Some f \<longrightarrow>
      feedback1 E image_bytes mime_type location = f)"
proof -
  assume parsed: "json_loads E (clean_json (eval_result1 E image_bytes mime_type location)) =
     Some (JObject items)"
  note ev = evaluate_object [OF parsed, of "JString []"]
  have no_score: "\<not> stops_after1 E image_bytes mime_type location"
    if "map_of items ''score'' = None"
    using that by (simp add: stops_after1_def ev py_ge_def)
  have no_feedback: "feedback1 E image_bytes mime_type location = JString ''Good.''"
    if "map_of items ''feedback'' = None"
    using that by (simp add: feedback1_def ev)
  have score: "stops_after1 E image_bytes mime_type location = (py_ge sc 8 \<noteq> Inr False)"
    if "map_of items ''score'' = Some sc" for sc
  proof (cases "py_ge sc 8")
    case (Inl e)
    with that show ?thesis by (simp add: stops_after1_def ev)
  next
    case (Inr b)
    with that show ?thesis by (cases b) (simp_all add: stops_after1_def ev)
  qed
  have fb: "feedback1 E image_bytes mime_type location = f"
    if "map_of items ''feedback'' = Some f" for f
    using that by (simp add: feedback1_def ev)
  have prompt: "contents (sent (snd (run_pipeline E image_bytes mime_type location)) ! 4) =
        [Prompt (''Refine this myth based on feedback: Good.'' @ ''\<newline>\<newline>CONTEXT:\<newline>'' @
                 context1 E image_bytes mime_type location)]"
    if "map_of items ''score'' = None" and "map_of items ''feedback'' = None"
    using second_generate_request [OF no_score [OF that(1)]] no_feedback [OF that(2)]
    by (simp add: generate_request_def build_request_def full_prompt_def prompt_text_def
        truthy_def format_value_def)
  from no_score no_feedback score fb prompt show ?thesis
    by (simp add: loop_exit_vars)
qed

theorem absent_fields_default_witness:
  "json_loads env_bare (clean_json (eval_result1 env_bare ''img'' ''image/png'' ''Tower of London'')) =
     Some (JObject []) \<and>
   iterations (fst (loop_exit env_bare ''img'' ''image/png'' ''Tower of London'')) = 2 \<and>
   feedback1 env_bare ''img'' ''image/png'' ''Tower of London'' = JString ''Good.'' \<and>
   contents (sent (snd (run_pipeline env_bare ''img'' ''image/png'' ''Tower of London'')) ! 4) =
     [Prompt ''Refine this myth based on feedback: Good.\<newline>\<newline>CONTEXT:\<newline>LOCATION: Tower of London\<newline>VISUALS: Ravens circle in fog.\<newline>VERIFIED LORE: 1536: Anne Boleyn was beheaded here.\<newline>''] \<and>
   json_loads env_refine
       (clean_json (eval_result1 env_refine ''img'' ''image/png'' ''Tower of London'')) =
     Some (JObject [(''score'', JInt 3), (''feedback'', JString ''needs more dread'')]) \<and>
   \<not> stops_after1 env_refine ''img'' ''image/png'' ''Tower of London'' \<and>
   feedback1 env_refine ''img'' ''image/png'' ''Tower of London'' = JString ''needs more dread''"
proof -
  have bare: "json_loads env_bare
      (clean_json (eval_result1 env_bare ''img'' ''image/png'' ''Tower of London'')) =
      Some (JObject [])"
    by code_simp
  have refine: "json_loads env_refine
      (clean_json (eval_result1 env_refine ''img'' ''image/png'' ''Tower of London'')) =
      Some (JObject [(''score'', JInt 3), (''feedback'', JString ''needs more dread'')])"
    by code_simp
  have ctx: "context1 env_bare ''img'' ''image/png'' ''Tower of London'' =
      ''LOCATION: Tower of London\<newline>VISUALS: Ravens circle in fog.\<newline>VERIFIED LORE: 1536: Anne Boleyn was beheaded here.\<newline>''"
    by code_simp
  from absent_fields_default [OF bare] absent_fields_default [OF refine] bare refine ctx
  show ?thesis
    by (simp add: py_ge_def)
qed

text \<open>
  C3 as stated fails for an invalid field: with the answer
  \<^verbatim>\<open>{"score": "9", "feedback": "more dread"}\<close> the specification's record has score 0 and
  the loop would go on, while the program's comparison raises and the loop stops after one
  pass.
\<close>

theorem invalid_score_not_defaulted:
  "json_loads env_string_score
      (clean_json (eval_result1 env_string_score ''img'' ''image/png'' ''Tower of London'')) =
     Some (JObject [(''score'', JString ''9''), (''feedback'', JString ''more dread'')]) \<and>
   spec_evaluate [(''score'', JString ''9''), (''feedback'', JString ''more dread'')] =
     (Next, JString ''more dread'') \<and>
   evaluate env_string_score
      (eval_result1 env_string_score ''img'' ''image/png'' ''Tower of London'') (JString []) =
     (Break, JString ''more dread'') \<and>
   iterations (fst (loop_exit env_string_score ''img'' ''image/png'' ''Tower of London'')) = 1"
  by code_simp

text \<open>
  C4 (as amended). The Bard's first request carries the prompt "Write the myth." followed
  by the context block. When there is a second pass, its prompt is
  "Refine this myth based on feedback: " with the feedback of the first evaluation if
  that feedback is truthy, and "Write the myth." again otherwise, followed by the same
  context block. In particular a non-empty feedback string is inserted as it is.
\<close>

theorem generation_prompts:
  "sent (snd (run_pipeline E image_bytes mime_type location)) ! 2 =
     build_request mime_type mythmaker_agent
       (''Write the myth.'' @ ''\<newline>\<newline>CONTEXT:\<newline>'' @
        context1 E image_bytes mime_type location) None False \<and>
   (\<not> stops_after1 E image_bytes mime_type location \<longrightarrow>
      sent (snd (run_pipeline E image_bytes mime_type location)) ! 4 =
        build_request mime_type mythmaker_agent
          ((if truthy (feedback1 E image_bytes mime_type location)
            then ''Refine this myth based on feedback: '' @
                 format_value E (feedback1 E image_bytes mime_type location)
            else ''Write the myth.'') @
           ''\<newline>\<newline>CONTEXT:\<newline>'' @ context1 E image_bytes mime_type location) None False) \<and>
   (\<forall>s. \<not> stops_after1 E image_bytes mime_type location \<and>
        feedback1 E image_bytes mime_type location = JString s \<and> s \<noteq> [] \<longrightarrow>
      sent (snd (run_pipeline E image_bytes mime_type location)) ! 4 =
        build_request mime_type mythmaker_agent
          (''Refine this myth based on feedback: '' @ s @
           ''\<newline>\<newline>CONTEXT:\<newline>'' @ context1 E image_bytes mime_type location) None False)"
proof (intro conjI impI allI)
  show "sent (snd (run_pipeline E image_bytes mime_type location)) ! 2 =
     build_request mime_type mythmaker_agent
       (''Write the myth.'' @ ''\<newline>\<newline>CONTEXT:\<newline>'' @
        context1 E image_bytes mime_type location) None False"
    by (simp add: run_pipeline_sent generate_request_def full_prompt_def prompt_text_def
        truthy_def)
next
  assume "\<not> stops_after1 E image_bytes mime_type location"
  then show "sent (snd (run_pipeline E image_bytes mime_type location)) ! 4 =
        build_request mime_type mythmaker_agent
          ((if truthy (feedback1 E image_bytes mime_type location)
            then ''Refine this myth based on feedback: '' @
                 format_value E (feedback1 E image_bytes mime_type location)
            else ''Write the myth.'') @
           ''\<newline>\<newline>CONTEXT:\<newline>'' @ context1 E image_bytes mime_type location) None False"
    by (simp add: second_generate_request generate_request_def full_prompt_def prompt_text_def)
next
  fix s
  assume "\<not> stops_after1 E image_bytes mime_type location \<and>
        feedback1 E image_bytes mime_type location = JString s \<and> s \<noteq> []"
  then show "sent (snd (run_pipeline E image_bytes mime_type location)) ! 4 =
        build_request mime_type mythmaker_agent
          (''Refine this myth based on feedback: '' @ s @
           ''\<newline>\<newline>CONTEXT:\<newline>'' @ context1 E image_bytes mime_type location) None False"
    by (simp add: second_generate_request generate_request_def full_prompt_def prompt_text_def
        truthy_def format_value_def)
qed

theorem generation_prompts_witness:
  "\<not> stops_after1 env_refine ''img'' ''image/png'' ''Tower of London'' \<and>
   feedback1 env_refine ''img'' ''image/png'' ''Tower of London'' = JString ''needs more dread'' \<and>
   contents (sent (snd (run_pipeline env_refine ''img'' ''image/png'' ''Tower of London'')) ! 2) =
     [Prompt ''Write the myth.\<newline>\<newline>CONTEXT:\<newline>LOCATION: Tower of London\<newline>VISUALS: Ravens circle in fog.\<newline>VERIFIED LORE: 1536: Anne Boleyn was beheaded here.\<newline>''] \<and>
   contents (sent (snd (run_pipeline env_refine ''img'' ''image/png'' ''Tower of London'')) ! 4) =
     [Prompt ''Refine this myth based on feedback: needs more dread\<newline>\<newline>CONTEXT:\<newline>LOCATION: Tower of London\<newline>VISUALS: Ravens circle in fog.\<newline>VERIFIED LORE: 1536: Anne Boleyn was beheaded here.\<newline>'']"
proof -
  have go: "\<not> stops_after1 env_refine ''img'' ''image/png'' ''Tower of London''"
    by code_simp
  have fb: "feedback1 env_refine ''img'' ''image/png'' ''Tower of London'' =
      JString ''needs more dread''"
    by code_simp
  have ctx: "context1 env_refine ''img'' ''image/png'' ''Tower of London'' =
      ''LOCATION: Tower of London\<newline>VISUALS: Ravens circle in fog.\<newline>VERIFIED LORE: 1536: Anne Boleyn was beheaded here.\<newline>''"
    by code_simp
  from generation_prompts [of env_refine "''img''" "''image/png''" "''Tower of London''"] go fb ctx
  show ?thesis
    by (simp add: build_request_def truthy_def format_value_def)
qed

text \<open>
  C4 as stated fails when the feedback is empty: with the answer
  \<^verbatim>\<open>{"score": 3, "feedback": ""}\<close> the loop makes a second pass, and its prompt is
  "Write the myth." and not "Refine this myth based on feedback: ".
\<close>

theorem empty_feedback_second_prompt:
  "iterations (fst (loop_exit env_empty_feedback ''img'' ''image/png'' ''Tower of London'')) = 2 \<and>
   feedback1 env_empty_feedback ''img'' ''image/png'' ''Tower of London'' = JString [] \<and>
   contents
     (sent (snd (run_pipeline env_empty_feedback ''img'' ''image/png'' ''Tower of London'')) ! 4) =
     [Prompt ''Write the myth.\<newline>\<newline>CONTEXT:\<newline>LOCATION: Tower of London\<newline>VISUALS: Ravens circle in fog.\<newline>VERIFIED LORE: 1536: Anne Boleyn was beheaded here.\<newline>''] \<and>
   contents
     (sent (snd (run_pipeline env_empty_feedback ''img'' ''image/png'' ''Tower of London'')) ! 4) \<noteq>
     [Prompt (''Refine this myth based on feedback: '' @ [] @ ''\<newline>\<newline>CONTEXT:\<newline>'' @
              context1 env_empty_feedback ''img'' ''image/png'' ''Tower of London'')]"
  by code_simp

subsection \<open>The second evaluation\<close>

lemma call_text_other_call:
  "k \<noteq> n \<Longrightarrow>
   call_text (E\<lparr>generate_content := (generate_content E)(n := g)\<rparr>) k req = call_text E k req"
  by (simp add: call_text_def)

lemma evaluate_same_parser:
  "evaluate (E\<lparr>generate_content := h\<rparr>) ev fb = evaluate E ev fb"
  by (simp add: evaluate_def try_block_def)

lemma format_value_same_str:
  "format_value (E\<lparr>generate_content := h\<rparr>) fb = format_value E fb"
  by (cases fb) (simp_all add: format_value_def)

lemma generate_request_same_str:
  "generate_request (E\<lparr>generate_content := h\<rparr>) mime_type fb ctx =
     generate_request E mime_type fb ctx"
  by (simp add: generate_request_def full_prompt_def prompt_text_def format_value_same_str)

text \<open>
  C10. The sixth call of a run, when there is one, is the evaluation of the second draft.
  Whatever the service does on that call, the session memory returned is the same, and
  so are the requests sent.
\<close>

theorem second_evaluation_has_no_effect:
  "fst (run_pipeline (E\<lparr>generate_content := (generate_content E)(5 := g)\<rparr>)
         image_bytes mime_type location) =
     fst (run_pipeline E image_bytes mime_type location) \<and>
   sent (snd (run_pipeline (E\<lparr>generate_content := (generate_content E)(5 := g)\<rparr>)
         image_bytes mime_type location)) =
     sent (snd (run_pipeline E image_bytes mime_type location)) \<and>
   drop 5 (sent (snd (run_pipeline E image_bytes mime_type location))) =
     (if stops_after1 E image_bytes mime_type location then []
      else [evaluate_request mime_type (draft2 E image_bytes mime_type location)])"
proof -
  define E' where "E' = E\<lparr>generate_content := (generate_content E)(5 := g)\<rparr>"
  have vis: "visuals1 E' image_bytes mime_type = visuals1 E image_bytes mime_type"
    by (simp add: visuals1_def E'_def call_text_other_call)
  have lor: "lore1 E' mime_type location = lore1 E mime_type location"
    by (simp add: lore1_def E'_def call_text_other_call)
  have ctx: "context1 E' image_bytes mime_type location = context1 E image_bytes mime_type location"
    by (simp add: context1_def vis lor)
  have d1: "draft1 E' image_bytes mime_type location = draft1 E image_bytes mime_type location"
    unfolding draft1_def ctx
    by (simp add: E'_def call_text_other_call generate_request_same_str)
  have ev1: "eval_result1 E' image_bytes mime_type location =
      eval_result1 E image_bytes mime_type location"
    unfolding eval_result1_def d1 by (simp add: E'_def call_text_other_call)
  have fb1: "feedback1 E' image_bytes mime_type location = feedback1 E image_bytes mime_type location"
    unfolding feedback1_def ev1 by (simp add: E'_def evaluate_same_parser)
  have stop: "stops_after1 E' image_bytes mime_type location =
      stops_after1 E image_bytes mime_type location"
    unfolding stops_after1_def ev1 by (simp add: E'_def evaluate_same_parser)
  have d2: "draft2 E' image_bytes mime_type location = draft2 E image_bytes mime_type location"
    unfolding draft2_def ctx fb1
    by (simp add: E'_def call_text_other_call generate_request_same_str)
  have req: "generate_request E' mime_type fb c = generate_request E mime_type fb c" for fb c
    by (simp add: E'_def generate_request_same_str)
  have "fst (run_pipeline E' image_bytes mime_type location) =
      fst (run_pipeline E image_bytes mime_type location)"
    by (simp add: run_pipeline_memory vis lor d1 d2 stop)
  moreover have "sent (snd (run_pipeline E' image_bytes mime_type location)) =
      sent (snd (run_pipeline E image_bytes mime_type location))"
    by (simp add: run_pipeline_sent ctx d1 d2 fb1 stop req)
  moreover have "drop 5 (sent (snd (run_pipeline E image_bytes mime_type location))) =
     (if stops_after1 E image_bytes mime_type location then []
      else [evaluate_request mime_type (draft2 E image_bytes mime_type location)])"
    by (simp add: run_pipeline_sent)
  ultimately show ?thesis
    by (simp add: E'_def)
qed

theorem second_evaluation_has_no_effect_witness:
  "fst (run_pipeline (env_refine\<lparr>generate_content :=
          (generate_content env_refine)(5 := \<lambda>req. reply ''Spooky enough, I like it.'')\<rparr>)
         ''img'' ''image/png'' ''Tower of London'') =
     \<lparr>visuals = ''Ravens circle in fog.'', lore = ''1536: Anne Boleyn was beheaded here.'',
      drafts = [''I walk the tower.'', ''I walk the tower, and she walks behind me.''],
      final_myth = ''I walk the tower, and she walks behind me.''\<rparr> \<and>
   call_text (env_refine\<lparr>generate_content :=
          (generate_content env_refine)(5 := \<lambda>req. reply ''Spooky enough, I like it.'')\<rparr>) 5
       (evaluate_request ''image/png'' ''I walk the tower, and she walks behind me.'') =
     ''Spooky enough, I like it.'' \<and>
   call_text env_refine 5
       (evaluate_request ''image/png'' ''I walk the tower, and she walks behind me.'') =
     ''{\"score\": 9, \"feedback\": \"great\"}''"
proof -
  have m: "fst (run_pipeline env_refine ''img'' ''image/png'' ''Tower of London'') =
     \<lparr>visuals = ''Ravens circle in fog.'', lore = ''1536: Anne Boleyn was beheaded here.'',
      drafts = [''I walk the tower.'', ''I walk the tower, and she walks behind me.''],
      final_myth = ''I walk the tower, and she walks behind me.''\<rparr>"
    by code_simp
  have c: "call_text env_refine 5
       (evaluate_request ''image/png'' ''I walk the tower, and she walks behind me.'') =
     ''{\"score\": 9, \"feedback\": \"great\"}''"
    by code_simp
  have c': "call_text (env_refine\<lparr>generate_content :=
          (generate_content env_refine)(5 := \<lambda>req. reply ''Spooky enough, I like it.'')\<rparr>) 5
       (evaluate_request ''image/png'' ''I walk the tower, and she walks behind me.'') =
     ''Spooky enough, I like it.''"
    by (simp add: call_text_def reply_def extract_text_def fallback_def add_part_def)
  from second_evaluation_has_no_effect [of env_refine "\<lambda>req. reply ''Spooky enough, I like it.''"
      "''img''" "''image/png''" "''Tower of London''"] m c c'
  show ?thesis
    by simp
qed

end
